theory Spec2Isabelle
  imports Main "HOL-Library.Word"
begin

section \<open>JavaScript values used by the stores\<close>

text \<open>
  A JavaScript string is a sequence of UTF-16 code units. \<open>str\<close> writes a literal of the
  source (all of them ASCII) as such a sequence.
\<close>

type_synonym jsstring = "16 word list"

definition str :: "string \<Rightarrow> jsstring" where
  "str s = map (\<lambda>c. word_of_nat (of_char c)) s"

text \<open>
  \<open>String.prototype.trim\<close> removes WhiteSpace and LineTerminator code points from both
  ends: TAB, VT, FF, SP, NBSP, ZWNBSP, the category Zs, and LF, CR, LS, PS.
\<close>

definition isWhiteSpace :: "16 word \<Rightarrow> bool" where
  "isWhiteSpace c \<longleftrightarrow>
     c \<in> {0x0009, 0x000B, 0x000C, 0x0020, 0x00A0, 0xFEFF,
          0x1680, 0x202F, 0x205F, 0x3000,
          0x000A, 0x000D, 0x2028, 0x2029}
     \<or> (0x2000 \<le> c \<and> c \<le> 0x200A)"

definition trim :: "jsstring \<Rightarrow> jsstring" where
  "trim s = rev (dropWhile isWhiteSpace (rev (dropWhile isWhiteSpace s)))"

text \<open>Truthiness of a string: the empty string is falsy, every other string is truthy.\<close>

definition truthy :: "jsstring \<Rightarrow> bool" where
  "truthy s \<longleftrightarrow> s \<noteq> []"

text \<open>
  \<open>[...new Set(xs)]\<close>: the Set constructor adds the elements in order, \<open>add\<close> ignores a
  value that is already a member, and spreading lists the members in insertion order.
\<close>

definition set_add :: "'a list \<Rightarrow> 'a \<Rightarrow> 'a list" where
  "set_add members x = (if x \<in> set members then members else members @ [x])"

definition spread_new_Set :: "'a list \<Rightarrow> 'a list" where
  "spread_new_Set xs = foldl set_add [] xs"

text \<open>
  What an \<open>await\<close>ed request gives: the value of a fulfilled promise, or the message of
  the error of a rejected one. What a call gives its caller: a value, or a thrown error
  (identified by its message).
\<close>

datatype 'a response = Resolved 'a | Rejected jsstring

datatype 'a completion = Returns 'a | Throws jsstring

section \<open>Data model\<close>

text \<open>
  A movie object of the provider. The stores read only its \<open>id\<close>; the other fields are
  carried along.
\<close>

record movie =
  movie_id :: int
  title :: jsstring
  poster_path :: "jsstring option"
  release_date :: jsstring

text \<open>The state of \<open>AuthProvider\<close>; \<open>None\<close> is \<open>null\<close>.\<close>

record auth =
  user :: "jsstring option"
  showAuthModal :: bool
  authMode :: jsstring

text \<open>The state of \<open>MovieProvider\<close>.\<close>

record catalog =
  movies :: "movie list"
  trendingMovies :: "movie list"
  searchQuery :: jsstring
  isLoading :: bool
  error :: "jsstring option"
  favorites :: "movie list"
  searchHistory :: "jsstring list"

text \<open>
  The application: the two providers' states and \<open>localStorage\<close>, which outlives them
  (\<open>getItem\<close> of a missing key is \<open>null\<close>, here \<open>None\<close>).
\<close>

record app =
  authS :: auth
  storageS :: "jsstring \<rightharpoonup> jsstring"
  catalogS :: catalog

text \<open>The initial values of the \<open>useState\<close> hooks.\<close>

definition auth_init :: auth where
  "auth_init = \<lparr>user = None, showAuthModal = False, authMode = str ''login''\<rparr>"

definition catalog_init :: catalog where
  "catalog_init =
     \<lparr>movies = [], trendingMovies = [], searchQuery = [], isLoading = False,
      error = None, favorites = [], searchHistory = []\<rparr>"

section \<open>AuthProvider\<close>

text \<open>\<open>login\<close>, at the moment its timer fires; the password is never read.\<close>

definition login :: "jsstring \<Rightarrow> jsstring \<Rightarrow> app \<Rightarrow> app" where
  "login username password a =
     a\<lparr>authS := (authS a)\<lparr>user := Some username, showAuthModal := False\<rparr>,
       storageS := (storageS a)(str ''user'' \<mapsto> username)\<rparr>"

definition logout :: "app \<Rightarrow> app" where
  "logout a =
     a\<lparr>authS := (authS a)\<lparr>user := None\<rparr>,
       storageS := (storageS a)(str ''user'' := None)\<rparr>"

definition openAuthModal :: "jsstring \<Rightarrow> app \<Rightarrow> app" where
  "openAuthModal mode a = a\<lparr>authS := (authS a)\<lparr>authMode := mode, showAuthModal := True\<rparr>\<rparr>"

text \<open>The mount effect of \<open>AuthProvider\<close>: \<open>if (storedUser) setUser(storedUser)\<close>.\<close>

definition restoreSession :: "app \<Rightarrow> app" where
  "restoreSession a =
     (case storageS a (str ''user'') of
        None \<Rightarrow> a
      | Some storedUser \<Rightarrow>
          if truthy storedUser then a\<lparr>authS := (authS a)\<lparr>user := Some storedUser\<rparr>\<rparr> else a)"

text \<open>
  A reload of the page: both providers are mounted afresh with their initial state, the
  durable storage is what it was.
\<close>

definition reload :: "app \<Rightarrow> app" where
  "reload a = \<lparr>authS = auth_init, storageS = storageS a, catalogS = catalog_init\<rparr>"

section \<open>MovieProvider\<close>

text \<open>
  Each asynchronous operation is split at its \<open>await\<close>: \<open>_begin\<close> is what runs before the
  request is sent, \<open>_settle\<close> what runs once the request has been answered (with the
  \<open>catch\<close> and \<open>finally\<close> blocks), and the operation run alone is one after the other.
\<close>

definition fetchTrendingMovies :: "movie list response \<Rightarrow> movie list completion" where
  "fetchTrendingMovies r =
     (case r of
        Resolved results \<Rightarrow> Returns results
      | Rejected err \<Rightarrow> Throws (str ''Failed to fetch trending movies''))"

definition fetchMovieDetails_begin :: "catalog \<Rightarrow> catalog" where
  "fetchMovieDetails_begin s = s\<lparr>isLoading := True\<rparr>"

definition fetchMovieDetails_settle :: "movie response \<Rightarrow> catalog \<Rightarrow> movie completion \<times> catalog" where
  "fetchMovieDetails_settle r s =
     ((case r of
         Resolved data \<Rightarrow> Returns data
       | Rejected err \<Rightarrow> Throws (str ''Failed to fetch movie details'')),
      s\<lparr>isLoading := False\<rparr>)"

definition fetchMovieDetails :: "jsstring \<Rightarrow> movie response \<Rightarrow> catalog \<Rightarrow> movie completion \<times> catalog" where
  "fetchMovieDetails ident r s = fetchMovieDetails_settle r (fetchMovieDetails_begin s)"

definition searchMovies_begin :: "jsstring \<Rightarrow> catalog \<Rightarrow> catalog" where
  "searchMovies_begin query s = s\<lparr>isLoading := True, searchQuery := query\<rparr>"

definition searchMovies_settle :: "jsstring \<Rightarrow> movie list response \<Rightarrow> catalog \<Rightarrow> unit completion \<times> catalog" where
  "searchMovies_settle query r s =
     (Returns (),
      (case r of
         Resolved results \<Rightarrow>
           s\<lparr>movies := results,
             searchHistory := spread_new_Set (searchHistory s @ [query])\<rparr>
       | Rejected message \<Rightarrow> s\<lparr>error := Some message\<rparr>)
      \<lparr>isLoading := False\<rparr>)"

definition searchMovies :: "jsstring \<Rightarrow> movie list response \<Rightarrow> catalog \<Rightarrow> unit completion \<times> catalog" where
  "searchMovies query r s = searchMovies_settle query r (searchMovies_begin query s)"

definition clearSearch :: "catalog \<Rightarrow> catalog" where
  "clearSearch s = s\<lparr>searchQuery := [], movies := []\<rparr>"

definition toggleFavorite :: "movie \<Rightarrow> catalog \<Rightarrow> catalog" where
  "toggleFavorite m s =
     s\<lparr>favorites :=
        (let prev = favorites s;
             isFavorite = list_ex (\<lambda>fav. movie_id fav = movie_id m) prev
         in if isFavorite then filter (\<lambda>fav. movie_id fav \<noteq> movie_id m) prev
            else prev @ [m])\<rparr>"

text \<open>The mount effect of \<open>MovieProvider\<close>, \<open>loadData\<close>.\<close>

definition loadData_begin :: "catalog \<Rightarrow> catalog" where
  "loadData_begin s = s\<lparr>isLoading := True\<rparr>"

definition loadData_settle :: "movie list response \<Rightarrow> catalog \<Rightarrow> unit completion \<times> catalog" where
  "loadData_settle r s =
     (Returns (),
      (case fetchTrendingMovies r of
         Returns data \<Rightarrow> s\<lparr>trendingMovies := data\<rparr>
       | Throws message \<Rightarrow> s\<lparr>error := Some message\<rparr>)
      \<lparr>isLoading := False\<rparr>)"

definition loadData :: "movie list response \<Rightarrow> catalog \<Rightarrow> unit completion \<times> catalog" where
  "loadData r s = loadData_settle r (loadData_begin s)"

text \<open>
  \<open>handleSearch\<close> of the \<open>Home\<close> page, the only caller of \<open>searchMovies\<close>; it does not
  wait for the promise.
\<close>

definition handleSearch :: "jsstring \<Rightarrow> movie list response \<Rightarrow> catalog \<Rightarrow> catalog" where
  "handleSearch searchInput r s =
     (if truthy (trim searchInput) then snd (searchMovies searchInput r s) else s)"

section \<open>Overlapping operations\<close>

text \<open>
  Requests may overlap: a call runs up to its \<open>await\<close>, and its remainder runs when the
  provider answers, in any order. A call in flight carries the answer it will get.
\<close>

datatype call =
    LoadData "movie list response"
  | SearchMovies jsstring "movie list response"
  | FetchMovieDetails jsstring "movie response"

datatype event =
    Start call
  | Settle nat
  | ClearSearch
  | ToggleFavorite movie

fun begin_call :: "call \<Rightarrow> catalog \<Rightarrow> catalog" where
  "begin_call (LoadData r) s = loadData_begin s"
| "begin_call (SearchMovies query r) s = searchMovies_begin query s"
| "begin_call (FetchMovieDetails ident r) s = fetchMovieDetails_begin s"

fun settle_call :: "call \<Rightarrow> catalog \<Rightarrow> catalog" where
  "settle_call (LoadData r) s = snd (loadData_settle r s)"
| "settle_call (SearchMovies query r) s = snd (searchMovies_settle query r s)"
| "settle_call (FetchMovieDetails ident r) s = snd (fetchMovieDetails_settle r s)"

text \<open>A store is the catalog state with the calls in flight; \<open>Settle i\<close> answers the i-th.\<close>

type_synonym store = "catalog \<times> call list"

fun step :: "event \<Rightarrow> store \<Rightarrow> store" where
  "step (Start c) (s, inflight) = (begin_call c s, inflight @ [c])"
| "step (Settle i) (s, inflight) =
     (if i < length inflight
      then (settle_call (inflight ! i) s, take i inflight @ drop (Suc i) inflight)
      else (s, inflight))"
| "step ClearSearch (s, inflight) = (clearSearch s, inflight)"
| "step (ToggleFavorite m) (s, inflight) = (toggleFavorite m s, inflight)"

fun exec :: "event list \<Rightarrow> store \<Rightarrow> store" where
  "exec [] st = st"
| "exec (e # es) st = exec es (step e st)"

definition store_init :: store where
  "store_init = (catalog_init, [])"

section \<open>Sample values\<close>

definition movieA :: movie where
  "movieA = \<lparr>movie_id = 1, title = str ''A'', poster_path = None, release_date = str ''2020-01-01''\<rparr>"

definition movieB :: movie where
  "movieB = \<lparr>movie_id = 2, title = str ''B'', poster_path = None, release_date = str ''2021-05-05''\<rparr>"

definition app_init :: app where
  "app_init = \<lparr>authS = auth_init, storageS = Map.empty, catalogS = catalog_init\<rparr>"

section \<open>Auxiliary facts\<close>

lemmas search_defs = searchMovies_def searchMovies_begin_def searchMovies_settle_def

lemmas load_defs = loadData_def loadData_begin_def loadData_settle_def fetchTrendingMovies_def

lemmas details_defs = fetchMovieDetails_def fetchMovieDetails_begin_def fetchMovieDetails_settle_def

subsection \<open>Trimming\<close>

lemma trim_Nil_iff: "trim s = [] \<longleftrightarrow> list_all isWhiteSpace s"
proof
  assume "trim s = []"
  then have all: "\<forall>c \<in> set (dropWhile isWhiteSpace s). isWhiteSpace c"
    by (simp add: trim_def)
  have "dropWhile isWhiteSpace s = []"
  proof (rule ccontr)
    assume ne: "dropWhile isWhiteSpace s \<noteq> []"
    then have "\<not> isWhiteSpace (hd (dropWhile isWhiteSpace s))"
      by (rule hd_dropWhile)
    moreover from ne have "hd (dropWhile isWhiteSpace s) \<in> set (dropWhile isWhiteSpace s)"
      by (rule hd_in_set)
    ultimately show False using all by blast
  qed
  then show "list_all isWhiteSpace s" by (simp add: list_all_iff)
next
  assume "list_all isWhiteSpace s"
  then have dw: "dropWhile isWhiteSpace s = []" by (simp add: list_all_iff)
  show "trim s = []" by (simp only: trim_def dw rev.simps dropWhile.simps)
qed

subsection \<open>Set insertion\<close>

lemma set_add_distinct: "distinct members \<Longrightarrow> distinct (set_add members x)"
  by (simp add: set_add_def)

lemma foldl_set_add_distinct: "distinct acc \<Longrightarrow> distinct (foldl set_add acc xs)"
  by (induction xs arbitrary: acc) (simp_all add: set_add_distinct)

lemma spread_new_Set_distinct: "distinct (spread_new_Set xs)"
  by (simp add: spread_new_Set_def foldl_set_add_distinct)

lemma set_set_add: "set (set_add members x) = insert x (set members)"
  by (auto simp: set_add_def)

lemma foldl_set_add_set: "set (foldl set_add acc xs) = set acc \<union> set xs"
  by (induction xs arbitrary: acc) (simp_all add: set_set_add)

lemma spread_new_Set_set: "set (spread_new_Set xs) = set xs"
  by (simp add: spread_new_Set_def foldl_set_add_set)

lemma foldl_set_add_id: "distinct (acc @ xs) \<Longrightarrow> foldl set_add acc xs = acc @ xs"
proof (induction xs arbitrary: acc)
  case Nil
  then show ?case by simp
next
  case (Cons x xs)
  from Cons.prems have "x \<notin> set acc" by simp
  then have "set_add acc x = acc @ [x]" by (simp add: set_add_def)
  moreover from Cons.prems have "distinct ((acc @ [x]) @ xs)" by simp
  ultimately show ?case using Cons.IH [of "acc @ [x]"] by simp
qed

lemma spread_new_Set_id: "distinct xs \<Longrightarrow> spread_new_Set xs = xs"
  using foldl_set_add_id [of "[]" xs] by (simp add: spread_new_Set_def)

lemma spread_new_Set_snoc:
  "distinct xs \<Longrightarrow> spread_new_Set (xs @ [q]) = (if q \<in> set xs then xs else xs @ [q])"
  using spread_new_Set_id [of xs] by (simp add: spread_new_Set_def set_add_def)

subsection \<open>Toggling a favorite twice\<close>

lemma filter_other_ids_id:
  "\<not> list_ex (\<lambda>fav. movie_id fav = i) prev \<Longrightarrow> filter (\<lambda>fav. movie_id fav \<noteq> i) prev = prev"
  by (induction prev) auto

lemma no_id_after_filter: "\<not> list_ex (\<lambda>fav. movie_id fav = i) (filter (\<lambda>fav. movie_id fav \<noteq> i) prev)"
  by (simp add: list_ex_iff)

lemma toggle_twice_member:
  "list_ex (\<lambda>fav. movie_id fav = movie_id m) (favorites s) \<Longrightarrow>
   favorites (toggleFavorite m (toggleFavorite m s)) =
     filter (\<lambda>fav. movie_id fav \<noteq> movie_id m) (favorites s) @ [m]"
  by (simp add: toggleFavorite_def no_id_after_filter)

lemma toggle_twice_absent:
  "\<not> list_ex (\<lambda>fav. movie_id fav = movie_id m) (favorites s) \<Longrightarrow>
   favorites (toggleFavorite m (toggleFavorite m s)) = favorites s"
  by (simp add: toggleFavorite_def filter_other_ids_id)

subsection \<open>The search history along a run\<close>

lemma searchHistory_begin_call: "searchHistory (begin_call c s) = searchHistory s"
  by (cases c) (simp_all add: loadData_begin_def searchMovies_begin_def fetchMovieDetails_begin_def)

lemma distinct_settle_call: "distinct (searchHistory s) \<Longrightarrow> distinct (searchHistory (settle_call c s))"
proof (cases c)
  case (LoadData r)
  assume "distinct (searchHistory s)"
  with LoadData show ?thesis
    by (cases r) (simp_all add: loadData_settle_def fetchTrendingMovies_def)
next
  case (SearchMovies q r)
  assume "distinct (searchHistory s)"
  with SearchMovies show ?thesis
    by (cases r) (simp_all add: searchMovies_settle_def spread_new_Set_distinct)
next
  case (FetchMovieDetails i r)
  assume "distinct (searchHistory s)"
  with FetchMovieDetails show ?thesis
    by (simp add: fetchMovieDetails_settle_def)
qed

lemma distinct_step:
  "distinct (searchHistory (fst st)) \<Longrightarrow> distinct (searchHistory (fst (step e st)))"
proof (cases st)
  case (Pair s inflight)
  assume "distinct (searchHistory (fst st))"
  with Pair show ?thesis
    by (cases e)
       (simp_all add: searchHistory_begin_call distinct_settle_call clearSearch_def toggleFavorite_def)
qed

lemma distinct_exec:
  "distinct (searchHistory (fst st)) \<Longrightarrow> distinct (searchHistory (fst (exec es st)))"
  by (induction es arbitrary: st) (simp_all add: distinct_step)

subsection \<open>The loading flag along a run\<close>

lemma isLoading_settle_call: "\<not> isLoading (settle_call c s)"
proof (cases c)
  case (LoadData r)
  then show ?thesis by (cases r) (simp_all add: loadData_settle_def fetchTrendingMovies_def)
next
  case (SearchMovies q r)
  then show ?thesis by (cases r) (simp_all add: searchMovies_settle_def)
next
  case (FetchMovieDetails i r)
  then show ?thesis by (simp add: fetchMovieDetails_settle_def)
qed

lemma inflight_step:
  "(isLoading (fst st) \<longrightarrow> snd st \<noteq> []) \<Longrightarrow> (isLoading (fst (step e st)) \<longrightarrow> snd (step e st) \<noteq> [])"
proof (cases st)
  case (Pair s inflight)
  assume "isLoading (fst st) \<longrightarrow> snd st \<noteq> []"
  with Pair show ?thesis
    by (cases e) (simp_all add: isLoading_settle_call clearSearch_def toggleFavorite_def)
qed

lemma inflight_exec:
  "(isLoading (fst st) \<longrightarrow> snd st \<noteq> []) \<Longrightarrow> (isLoading (fst (exec es st)) \<longrightarrow> snd (exec es st) \<noteq> [])"
proof (induction es arbitrary: st)
  case Nil
  then show ?case by simp
next
  case (Cons e es)
  from Cons.prems have "isLoading (fst (step e st)) \<longrightarrow> snd (step e st) \<noteq> []"
    by (rule inflight_step)
  then show ?case using Cons.IH [of "step e st"] by simp
qed

section \<open>The claims\<close>

subsection \<open>C1: blank queries\<close>

text \<open>
  Claim C1, amended. The guard against blank queries is in \<open>handleSearch\<close> of the Home
  page, not in the store: with an empty or whitespace-only input \<open>handleSearch\<close> does
  not call \<open>searchMovies\<close>, and the catalog state after the call is the state before
  it (so \<open>searchQuery\<close>, \<open>movies\<close> and \<open>isLoading\<close> are not mutated). \<open>searchMovies\<close>
  itself validates nothing: it sets \<open>searchQuery\<close> to whatever it is given.
\<close>

theorem handleSearch_blank_unchanged:
  "(list_all isWhiteSpace searchInput \<longrightarrow> handleSearch searchInput r s = s)
   \<and> searchQuery (snd (searchMovies query r s)) = query"
  by (cases r) (simp_all add: handleSearch_def truthy_def trim_Nil_iff search_defs)

text \<open>
  The guard at the input of three spaces.
\<close>

theorem handleSearch_blank_unchanged_witness:
  "list_all isWhiteSpace (str ''   '')
   \<and> handleSearch (str ''   '') (Resolved []) catalog_init = catalog_init"
  using handleSearch_blank_unchanged [of "str ''   ''" "Resolved []" catalog_init]
  by (simp add: str_def isWhiteSpace_def)

text \<open>
  C1 as stated fails for the store operation: \<open>searchMovies\<close> with three spaces, on the
  initial state, sets \<open>searchQuery\<close> to the three spaces, and the state has changed.
\<close>

theorem searchMovies_blank_counterexample:
  "list_all isWhiteSpace (str ''   '')
   \<and> searchQuery catalog_init = []
   \<and> searchQuery (snd (searchMovies (str ''   '') (Resolved []) catalog_init)) = str ''   ''
   \<and> snd (searchMovies (str ''   '') (Resolved []) catalog_init) \<noteq> catalog_init"
  by (simp add: str_def isWhiteSpace_def search_defs catalog_init_def spread_new_Set_def set_add_def)

subsection \<open>C2: the effect of a search\<close>

text \<open>
  Claim C2, amended. For every query \<open>q\<close>, \<open>searchMovies q\<close> on provider success replaces
  \<open>movies\<close> with the response's results, sets \<open>searchQuery\<close> to \<open>q\<close> and adds \<open>q\<close> to
  \<open>searchHistory\<close> with set semantics, changing nothing else but \<open>isLoading\<close>; on provider
  failure it sets \<open>error\<close> to the failure's message and leaves \<open>movies\<close> and
  \<open>searchHistory\<close> unchanged, but \<open>searchQuery\<close> is set to \<open>q\<close> all the same, because it
  is assigned before the request is sent.
\<close>

theorem searchMovies_effect:
  "snd (searchMovies q (Resolved results) s) =
     s\<lparr>movies := results, searchQuery := q,
       searchHistory := spread_new_Set (searchHistory s @ [q]), isLoading := False\<rparr>
   \<and> q \<in> set (searchHistory (snd (searchMovies q (Resolved results) s)))
   \<and> snd (searchMovies q (Rejected message) s) =
     s\<lparr>searchQuery := q, error := Some message, isLoading := False\<rparr>"
  by (simp add: search_defs spread_new_Set_set)

text \<open>
  C2 as stated fails: after a successful search for \<open>a\<close>, a failing search for \<open>b\<close>
  leaves \<open>searchQuery\<close> equal to \<open>b\<close>, not to \<open>a\<close>.
\<close>

theorem searchMovies_failure_counterexample:
  "searchQuery (snd (searchMovies (str ''a'') (Resolved [movieA]) catalog_init)) = str ''a''
   \<and> searchQuery (snd (searchMovies (str ''b'') (Rejected (str ''Network Error''))
        (snd (searchMovies (str ''a'') (Resolved [movieA]) catalog_init)))) = str ''b''
   \<and> str ''b'' \<noteq> str ''a''"
  by (simp add: search_defs str_def)

subsection \<open>C3: where failures go\<close>

text \<open>
  Claim C3, amended. The initial trending load and a search never throw to their caller:
  a provider failure is caught and its message stored in \<open>error\<close>. \<open>fetchMovieDetails\<close>
  is different: on a provider failure it throws a new error, with the message
  \<open>Failed to fetch movie details\<close>, to its caller, and it never writes \<open>error\<close>.
\<close>

theorem failures_caught_except_details:
  "fst (loadData r s) = Returns ()
   \<and> fst (searchMovies q r s) = Returns ()
   \<and> error (snd (loadData (Rejected message) s)) = Some (str ''Failed to fetch trending movies'')
   \<and> error (snd (searchMovies q (Rejected message) s)) = Some message
   \<and> fst (fetchMovieDetails ident (Rejected message) s) = Throws (str ''Failed to fetch movie details'')
   \<and> error (snd (fetchMovieDetails ident r' s)) = error s"
  by (simp add: search_defs load_defs details_defs)

text \<open>
  C3 as stated fails for the detail fetch: a failing request makes \<open>fetchMovieDetails\<close>
  throw, and \<open>error\<close> is still \<open>null\<close>.
\<close>

theorem fetchMovieDetails_throws_counterexample:
  "fst (fetchMovieDetails (str ''42'') (Rejected (str ''Network Error'')) catalog_init)
     = Throws (str ''Failed to fetch movie details'')
   \<and> error (snd (fetchMovieDetails (str ''42'') (Rejected (str ''Network Error'')) catalog_init)) = None"
  by (simp add: details_defs catalog_init_def)

subsection \<open>C4: toggling a favorite twice\<close>

text \<open>
  Claim C4. For every favorites list and every movie, after two calls of
  \<open>toggleFavorite\<close> with that movie the set of favorite ids is the original one, and the
  other members stand in their original relative order. When the movie was not a
  favorite, the list is the original list; when it was, the movie itself has moved to
  the end.
\<close>

theorem toggleFavorite_twice:
  "movie_id ` set (favorites (toggleFavorite m (toggleFavorite m s))) = movie_id ` set (favorites s)
   \<and> filter (\<lambda>fav. movie_id fav \<noteq> movie_id m) (favorites (toggleFavorite m (toggleFavorite m s)))
       = filter (\<lambda>fav. movie_id fav \<noteq> movie_id m) (favorites s)
   \<and> (\<not> list_ex (\<lambda>fav. movie_id fav = movie_id m) (favorites s) \<longrightarrow>
        favorites (toggleFavorite m (toggleFavorite m s)) = favorites s)"
proof (cases "list_ex (\<lambda>fav. movie_id fav = movie_id m) (favorites s)")
  case True
  then obtain fav where "fav \<in> set (favorites s)" and "movie_id fav = movie_id m"
    by (auto simp: list_ex_iff)
  then have "movie_id m \<in> movie_id ` set (favorites s)"
    by (metis imageI)
  then have "movie_id ` set (filter (\<lambda>fav. movie_id fav \<noteq> movie_id m) (favorites s) @ [m])
      = movie_id ` set (favorites s)"
    by auto
  with True show ?thesis by (simp add: toggle_twice_member)
next
  case False
  then show ?thesis by (simp add: toggle_twice_absent)
qed

text \<open>
  Toggling a movie that is absent twice gives the list back; toggling the first of two
  favorites twice keeps both and moves it behind the other.
\<close>

theorem toggleFavorite_twice_witness:
  "\<not> list_ex (\<lambda>fav. movie_id fav = movie_id movieB) (favorites (catalog_init\<lparr>favorites := [movieA]\<rparr>))
   \<and> favorites (toggleFavorite movieB (toggleFavorite movieB (catalog_init\<lparr>favorites := [movieA]\<rparr>)))
       = [movieA]
   \<and> favorites (toggleFavorite movieA (toggleFavorite movieA (catalog_init\<lparr>favorites := [movieA, movieB]\<rparr>)))
       = [movieB, movieA]"
  using toggleFavorite_twice [of movieB "catalog_init\<lparr>favorites := [movieA]\<rparr>"]
  by (simp add: movieA_def movieB_def toggleFavorite_def)

subsection \<open>C5: search, then clearSearch\<close>

text \<open>
  Claim C5. For every query \<open>q\<close> (the non-empty ones among them), a successful
  \<open>searchMovies q\<close> followed by \<open>clearSearch\<close> leaves \<open>searchQuery\<close> empty and \<open>movies\<close>
  empty, while \<open>searchHistory\<close> still contains \<open>q\<close>; \<open>clearSearch\<close> never changes
  \<open>searchHistory\<close>.
\<close>

theorem search_then_clearSearch:
  "searchQuery (clearSearch (snd (searchMovies q (Resolved results) s))) = []
   \<and> movies (clearSearch (snd (searchMovies q (Resolved results) s))) = []
   \<and> q \<in> set (searchHistory (clearSearch (snd (searchMovies q (Resolved results) s))))
   \<and> searchHistory (clearSearch s') = searchHistory s'"
  by (simp add: search_defs clearSearch_def spread_new_Set_set)

subsection \<open>C6: a failing trending load\<close>

text \<open>
  Claim C6. A failing initial load leaves \<open>trendingMovies\<close> at its previous value (empty
  when it fails on the initial state), sets \<open>error\<close> to the fixed, non-empty message
  \<open>Failed to fetch trending movies\<close>, and changes no other field but \<open>isLoading\<close>.
\<close>

theorem loadData_failure:
  "snd (loadData (Rejected message) s) =
     s\<lparr>error := Some (str ''Failed to fetch trending movies''), isLoading := False\<rparr>
   \<and> trendingMovies (snd (loadData (Rejected message) s)) = trendingMovies s
   \<and> trendingMovies (snd (loadData (Rejected message) catalog_init)) = []
   \<and> str ''Failed to fetch trending movies'' \<noteq> []"
  by (simp add: load_defs catalog_init_def str_def)

subsection \<open>C7: login, reload, restore\<close>

text \<open>
  Claim C7, amended. For every non-empty identity and any password, \<open>login\<close> followed by
  a reload and the restore effect yields a session whose identity is the one passed to
  \<open>login\<close>.
\<close>

theorem login_then_restoreSession:
  "username \<noteq> [] \<Longrightarrow>
   user (authS (restoreSession (reload (login username password a)))) = Some username"
  by (simp add: restoreSession_def reload_def login_def truthy_def)

text \<open>
  The identity \<open>alice\<close> with the password \<open>anything\<close>.
\<close>

theorem login_then_restoreSession_witness:
  "str ''alice'' \<noteq> []
   \<and> user (authS (restoreSession (reload (login (str ''alice'') (str ''anything'') app_init))))
       = Some (str ''alice'')"
  using login_then_restoreSession [of "str ''alice''" "str ''anything''" app_init]
  by (simp add: str_def)

text \<open>
  C7 as stated fails for the empty identity: the stored empty string is falsy, so the
  restore effect leaves the session without identity.
\<close>

theorem login_empty_identity_counterexample:
  "storageS (reload (login [] (str ''anything'') app_init)) (str ''user'') = Some []
   \<and> user (authS (restoreSession (reload (login [] (str ''anything'') app_init)))) = None
   \<and> user (authS (restoreSession (reload (login [] (str ''anything'') app_init)))) \<noteq> Some []"
  by (simp add: restoreSession_def reload_def login_def truthy_def auth_init_def)

subsection \<open>C8: the search history has no duplicates\<close>

text \<open>
  Claim C8. After any sequence of operations from the initial state (searches, detail
  fetches and the trending load, started and answered in any order, \<open>clearSearch\<close> and
  \<open>toggleFavorite\<close>) no query occurs twice in \<open>searchHistory\<close>, and a successful search
  for a query already in the history leaves the history as it is.
\<close>

theorem searchHistory_no_duplicates:
  "distinct (searchHistory (fst (exec es store_init)))
   \<and> (q \<in> set (searchHistory (fst (exec es store_init))) \<longrightarrow>
        searchHistory (snd (searchMovies q (Resolved results) (fst (exec es store_init))))
          = searchHistory (fst (exec es store_init)))"
proof -
  have d: "distinct (searchHistory (fst (exec es store_init)))"
    by (rule distinct_exec) (simp add: store_init_def catalog_init_def)
  then show ?thesis
    by (simp add: search_defs spread_new_Set_snoc)
qed

text \<open>
  Searching \<open>a\<close> twice: the history is \<open>[a]\<close>.
\<close>

theorem searchHistory_no_duplicates_witness:
  "str ''a'' \<in> set (searchHistory (fst (exec [Start (SearchMovies (str ''a'') (Resolved [movieA])), Settle 0] store_init)))
   \<and> searchHistory (snd (searchMovies (str ''a'') (Resolved [movieB])
        (fst (exec [Start (SearchMovies (str ''a'') (Resolved [movieA])), Settle 0] store_init))))
       = [str ''a'']"
  using searchHistory_no_duplicates [of "[Start (SearchMovies (str ''a'') (Resolved [movieA])), Settle 0]"
          "str ''a''" "[movieB]"]
  by (simp add: store_init_def catalog_init_def search_defs spread_new_Set_def set_add_def)

subsection \<open>C9: the loading flag\<close>

text \<open>
  Claim C9. When a search, a detail fetch or the initial trending load completes,
  \<open>isLoading\<close> is false, whether the request succeeded or failed, run alone or answered
  among overlapping requests; and along any run from the initial state \<open>isLoading\<close> is
  true only when some request is in flight.
\<close>

theorem isLoading_false_after_completion:
  "\<not> isLoading (snd (loadData r s))
   \<and> \<not> isLoading (snd (searchMovies q r s))
   \<and> \<not> isLoading (snd (fetchMovieDetails ident r' s))
   \<and> (i < length inflight \<longrightarrow> \<not> isLoading (fst (step (Settle i) (s, inflight))))
   \<and> (isLoading (fst (exec es store_init)) \<longrightarrow> snd (exec es store_init) \<noteq> [])"
proof -
  have "\<not> isLoading (snd (loadData r s))"
    using isLoading_settle_call [of "LoadData r" "loadData_begin s"] by (simp add: loadData_def)
  moreover have "\<not> isLoading (snd (searchMovies q r s))"
    using isLoading_settle_call [of "SearchMovies q r" "searchMovies_begin q s"]
    by (simp add: searchMovies_def)
  moreover have "\<not> isLoading (snd (fetchMovieDetails ident r' s))"
    using isLoading_settle_call [of "FetchMovieDetails ident r'" "fetchMovieDetails_begin s"]
    by (simp add: fetchMovieDetails_def)
  moreover have "i < length inflight \<longrightarrow> \<not> isLoading (fst (step (Settle i) (s, inflight)))"
    by (simp add: isLoading_settle_call)
  moreover have "isLoading (fst (exec es store_init)) \<longrightarrow> snd (exec es store_init) \<noteq> []"
    by (rule inflight_exec) (simp add: store_init_def catalog_init_def)
  ultimately show ?thesis by blast
qed

text \<open>
  A search that has been started and not yet answered: the flag is set and the request
  is in flight; answering it clears the flag.
\<close>

theorem isLoading_false_after_completion_witness:
  "(0::nat) < length [SearchMovies (str ''a'') (Resolved [movieA])]
   \<and> \<not> isLoading (fst (step (Settle 0) (searchMovies_begin (str ''a'') catalog_init,
          [SearchMovies (str ''a'') (Resolved [movieA])])))
   \<and> isLoading (fst (exec [Start (SearchMovies (str ''a'') (Resolved [movieA]))] store_init))
   \<and> snd (exec [Start (SearchMovies (str ''a'') (Resolved [movieA]))] store_init) \<noteq> []"
  using isLoading_false_after_completion [of "Resolved []" "searchMovies_begin (str ''a'') catalog_init"
          "str ''a''" "str ''1''" "Resolved movieA" 0 "[SearchMovies (str ''a'') (Resolved [movieA])]"
          "[Start (SearchMovies (str ''a'') (Resolved [movieA]))]"]
  by (simp add: store_init_def searchMovies_begin_def)

subsection \<open>C10: logout\<close>

text \<open>
  Claim C10. \<open>logout\<close> changes the session identity only, in memory and in durable
  storage: the whole catalog state (favorites, search history, query, results, trending
  movies, error) is unchanged, and the favorites are those seen by whoever logs in next.
\<close>

theorem logout_frame:
  "catalogS (logout a) = catalogS a
   \<and> user (authS (logout a)) = None
   \<and> storageS (logout a) = (storageS a)(str ''user'' := None)
   \<and> showAuthModal (authS (logout a)) = showAuthModal (authS a)
   \<and> authMode (authS (logout a)) = authMode (authS a)
   \<and> favorites (catalogS (login username password (logout a))) = favorites (catalogS a)"
  by (simp add: logout_def login_def)

end
